theory Spec2Isabelle
  imports
    Complex_Main
    "HOL-Library.Sublist"
    "HOL-Library.List_Lexorder"
    "HOL-Library.Char_ord"
    "HOL-Library.Product_Lexorder"
begin

section \<open>Data model\<close>

text \<open>
  The program is the \<^verbatim>\<open>upload\<close> handler of \<^verbatim>\<open>app.py\<close>: it reads a sales sheet, an OB
  sheet and two target tables, classifies every row into a cluster and a business unit,
  groups, merges and rolls the figures up.

  A cell of a text column of a sheet (\<^verbatim>\<open>Employee Responsible\<close>, \<^verbatim>\<open>Helios Code\<close>, the
  key column of a target table) is a string, a number, or missing (pandas' NaN/None).
  Numbers are exact rationals: the model idealises \<^verbatim>\<open>float64\<close> arithmetic, it does not
  reproduce binary rounding error, nor the wrap-around of an \<^verbatim>\<open>int64\<close> sum. The two agree
  on values that are exact in binary and whose sums stay below \<open>2\<^sup>5\<^sup>3\<close> in magnitude;
  the properties that speak of sums and of rounded totals are stated for such values.
\<close>

datatype cell = Str string | Num rat | Blank

text \<open>A computed float: a finite number or NaN.\<close>

datatype fval = Fin rat | NaN

text \<open>
  A row of an input sheet, restricted to the three columns the handler reads. The measure
  column \<^verbatim>\<open>MINR-2025\<close> is numeric.
\<close>

record txn =
  employee :: cell
  helios :: cell
  minr :: rat

text \<open>A sheet as parsed: its header labels and its rows.\<close>

record sheet =
  columns :: "string list"
  records :: "txn list"

section \<open>Constants\<close>

definition ID_COLS :: "string list" where
  "ID_COLS = [''Cluster'', ''Employee Responsible'', ''Helios Code'']"

definition EMP_SCALE :: rat where
  "EMP_SCALE = 1"

definition EMP_DEC :: nat where
  "EMP_DEC = 2"

text \<open>The dict literal, in insertion order.\<close>

definition EMPLOYEE_CLUSTER_MAP :: "(string \<times> string) list" where
  "EMPLOYEE_CLUSTER_MAP =
    [(''Pritesh'', ''CG''), (''Abinash'', ''CG''), (''Mayur'', ''CG''),
     (''TBH'', ''CG''), (''Arti'', ''CG''),
     (''Arun'', ''OD''), (''Abhishek'', ''OD''), (''Bodhis'', ''OD''), (''Mahesh'', ''OD''),
     (''MD FAZLE MURSHED'', ''OD''),
     (''Rahul'', ''B+R''), (''Harsh'', ''B+R''), (''Vikash'', ''B+R''), (''Nagender'', ''B+R''),
     (''Sunny'', ''JSR''),
     (''Priyanka Auddy'', ''JSR'')]"

definition DEFAULT_CLUSTER :: string where
  "DEFAULT_CLUSTER = ''OD''"

section \<open>Classifier\<close>

text \<open>Python's \<^verbatim>\<open>p in s\<close> on two strings: \<open>p\<close> occurs in \<open>s\<close> as a contiguous run.\<close>

fun py_in :: "string \<Rightarrow> string \<Rightarrow> bool" where
  "py_in p [] = (p = [])"
| "py_in p (c # cs) = (prefix p (c # cs) \<or> py_in p cs)"

text \<open>
  The \<^verbatim>\<open>for map_key, cluster in EMPLOYEE_CLUSTER_MAP.items()\<close> loop of \<^verbatim>\<open>get_cluster\<close>: it
  returns at the first key found in the name and falls through to the default.
\<close>

fun get_cluster_loop :: "(string \<times> string) list \<Rightarrow> string \<Rightarrow> string" where
  "get_cluster_loop [] name = DEFAULT_CLUSTER"
| "get_cluster_loop ((map_key, cluster) # items) name =
     (if py_in map_key name then cluster else get_cluster_loop items name)"

text \<open>
  \<^verbatim>\<open>get_cluster\<close>: the \<^verbatim>\<open>isinstance(..., str)\<close> guard is the case split; the substring test
  is only ever applied to a string.
\<close>

definition get_cluster :: "cell \<Rightarrow> string" where
  "get_cluster employee_name_from_file =
     (case employee_name_from_file of
        Str name \<Rightarrow> get_cluster_loop EMPLOYEE_CLUSTER_MAP name
      | _ \<Rightarrow> DEFAULT_CLUSTER)"

section \<open>Numbers\<close>

text \<open>
  \<^verbatim>\<open>round(x, ndigits)\<close>: to the nearest multiple of \<open>10\<^sup>-\<^sup>n\<close>, a tie going to the even
  neighbour. This is the rounding of the decimal value; Python's and numpy's rounding of
  the binary value can differ from it, and from each other, in the last digit when the
  decimal value ends in 5 at the next place.
\<close>

definition round_half_even :: "rat \<Rightarrow> int" where
  "round_half_even x =
     (let f = \<lfloor>x\<rfloor>; d = x - of_int f in
      if d < 1 / 2 then f else if 1 / 2 < d then f + 1 else if even f then f else f + 1)"

definition py_round :: "rat \<Rightarrow> nat \<Rightarrow> rat" where
  "py_round x ndigits = of_int (round_half_even (x * 10 ^ ndigits)) / 10 ^ ndigits"

text \<open>Float operations that let NaN through.\<close>

fun fround :: "fval \<Rightarrow> nat \<Rightarrow> fval" where
  "fround (Fin x) n = Fin (py_round x n)"
| "fround NaN n = NaN"

fun fsub :: "fval \<Rightarrow> fval \<Rightarrow> fval" where
  "fsub (Fin x) (Fin y) = Fin (x - y)"
| "fsub _ _ = NaN"

fun fmul :: "fval \<Rightarrow> fval \<Rightarrow> fval" where
  "fmul (Fin x) (Fin y) = Fin (x * y)"
| "fmul _ _ = NaN"

text \<open>
  Every division of the handler is by the constant \<^verbatim>\<open>EMP_SCALE\<close> or behind a guard that
  excludes a zero divisor; the zero case is written out as NaN and is never reached.
\<close>

fun fdiv :: "fval \<Rightarrow> fval \<Rightarrow> fval" where
  "fdiv (Fin x) (Fin y) = (if y = 0 then NaN else Fin (x / y))"
| "fdiv _ _ = NaN"

text \<open>Truth value of \<^verbatim>\<open>if v\<close> for a float or None: None and zero are false, NaN is true.\<close>

fun truthy :: "fval option \<Rightarrow> bool" where
  "truthy None = False"
| "truthy (Some (Fin x)) = (x \<noteq> 0)"
| "truthy (Some NaN) = True"

text \<open>
  \<^verbatim>\<open>Series.sum(min_count=1)\<close> over mapped values: missing values are skipped, and with no
  value present the result is NaN.
\<close>

definition sum_min_count1 :: "rat option list \<Rightarrow> fval" where
  "sum_min_count1 vs =
     (let present = List.map_filter (\<lambda>v. v) vs in
      if length present < 1 then NaN else Fin (sum_list present))"

text \<open>
  The range in which the sums and the scaling by 100 that the rounding performs are exact
  in \<^verbatim>\<open>float64\<close> for values that are exact in binary, and in which an \<^verbatim>\<open>int64\<close> sum
  cannot wrap around.
\<close>

definition exact_range :: "rat list \<Rightarrow> bool" where
  "exact_range vs = (sum_list (map abs vs) * 100 \<le> 2 ^ 53)"

text \<open>
  Python's \<^verbatim>\<open>str\<close> of a float holding a whole number of hundredths, as \<^verbatim>\<open>round(x, 2)\<close>
  returns, of magnitude below \<open>10\<^sup>1\<^sup>6\<close> (from there on Python prints an exponent, which
  is not modelled): the shortest decimal form, with at least one digit after the point.
  The sign is the float's sign bit, given apart, as a zero may be negative.
\<close>

definition digit_char :: "nat \<Rightarrow> char" where
  "digit_char d = ''0123456789'' ! d"

fun digits :: "nat \<Rightarrow> string" where
  "digits n = (if n < 10 then [digit_char n] else digits (n div 10) @ [digit_char (n mod 10)])"

definition str_hundredths :: "bool \<Rightarrow> rat \<Rightarrow> string" where
  "str_hundredths negative x =
     (let h = nat \<bar>\<lfloor>x * 100\<rfloor>\<bar>; ip = h div 100; fp = h mod 100 in
      (if negative then ''-'' else []) @ digits ip @ ''.'' @
      (if fp mod 10 = 0 then [digit_char (fp div 10)]
       else [digit_char (fp div 10), digit_char (fp mod 10)]))"

section \<open>Grouping and reconciliation\<close>

text \<open>
  Position of a group key in pandas' sorted key order: by cluster label, then by employee,
  numbers before strings, strings by code point.
\<close>

definition cell_rank :: "cell \<Rightarrow> bool \<times> rat \<times> string" where
  "cell_rank c = (case c of Num r \<Rightarrow> (False, r, []) | Str s \<Rightarrow> (True, 0, s) | Blank \<Rightarrow> (True, 1, []))"

definition key_rank :: "string \<times> cell \<Rightarrow> string \<times> bool \<times> rat \<times> string" where
  "key_rank k = (fst k, cell_rank (snd k))"

text \<open>\<^verbatim>\<open>df['Cluster'] = df['Employee Responsible'].apply(get_cluster)\<close>.\<close>

definition assign_cluster :: "txn list \<Rightarrow> (string \<times> txn) list" where
  "assign_cluster df = map (\<lambda>t. (get_cluster (employee t), t)) df"

text \<open>
  \<^verbatim>\<open>df.groupby(["Cluster", "Employee Responsible"])[col].sum().reset_index()\<close>: rows with
  a missing employee are dropped, the groups come out in sorted key order. The sum is the
  exact one; pandas' sum of a column of whole numbers is an \<^verbatim>\<open>int64\<close> sum, which wraps
  around beyond \<open>2\<^sup>6\<^sup>3\<close>.
\<close>

definition groupby_sum :: "(string \<times> txn) list \<Rightarrow> ((string \<times> cell) \<times> rat) list" where
  "groupby_sum df =
     (let kept = filter (\<lambda>r. employee (snd r) \<noteq> Blank) df;
          keys = sort_key key_rank (remdups (map (\<lambda>r. (fst r, employee (snd r))) kept))
      in map (\<lambda>k. (k, sum_list (map (\<lambda>r. minr (snd r))
                                 (filter (\<lambda>r. (fst r, employee (snd r)) = k) kept)))) keys)"

text \<open>
  The join of \<^verbatim>\<open>pd.merge(grp_ob, grp_sales, on=[...], how="outer")\<close>, which \<^verbatim>\<open>pd.merge\<close>
  reaches once it has accepted the key columns (see \<open>merge_keys_clash\<close> below): the union
  of the keys of both frames in sorted key order (an outer merge sorts the keys
  lexicographically, as pandas documents it); under each key every left row is paired
  with every right row, and a side without the key is missing.
\<close>

definition merge_outer ::
  "('k \<Rightarrow> 'o::linorder) \<Rightarrow> ('k \<times> rat) list \<Rightarrow> ('k \<times> rat) list \<Rightarrow> ('k \<times> rat option \<times> rat option) list" where
  "merge_outer rank left right =
     concat (map (\<lambda>k.
        let ls = map snd (filter (\<lambda>p. fst p = k) left);
            rs = map snd (filter (\<lambda>p. fst p = k) right)
        in if rs = [] then map (\<lambda>a. (k, Some a, None)) ls
           else if ls = [] then map (\<lambda>b. (k, None, Some b)) rs
           else concat (map (\<lambda>a. map (\<lambda>b. (k, Some a, Some b)) rs) ls))
       (sort_key rank (remdups (map fst left @ map fst right))))"

definition fillna0 :: "rat option \<Rightarrow> rat" where
  "fillna0 v = (case v of None \<Rightarrow> 0 | Some x \<Rightarrow> x)"

text \<open>A row of \<^verbatim>\<open>merged\<close>, the joined frame after \<^verbatim>\<open>fillna(0)\<close>.\<close>

record mrow =
  cluster :: string
  employee_responsible :: cell
  minr_ob :: rat
  minr_sales :: rat

definition merged :: "((string \<times> cell) \<times> rat) list \<Rightarrow> ((string \<times> cell) \<times> rat) list \<Rightarrow> mrow list" where
  "merged grp_ob grp_sales =
     map (\<lambda>(k, a, b). \<lparr>cluster = fst k, employee_responsible = snd k,
                       minr_ob = fillna0 a, minr_sales = fillna0 b\<rparr>)
         (merge_outer key_rank grp_ob grp_sales)"

text \<open>
  Before it joins, \<^verbatim>\<open>pd.merge\<close> compares the types of the key columns and raises a
  ValueError when one is numeric and the other holds text. The type of a column as read
  from the sheet: \<^verbatim>\<open>object\<close> when it has a string (or no row at all), \<^verbatim>\<open>int64\<close> when all
  its cells are whole numbers, \<^verbatim>\<open>float64\<close> otherwise. The \<^verbatim>\<open>Cluster\<close> key always holds
  text; the check bears on \<^verbatim>\<open>Employee Responsible\<close>.
\<close>

datatype dtype = Object | Int64 | Float64

definition is_whole :: "cell \<Rightarrow> bool" where
  "is_whole c = (case c of Num r \<Rightarrow> r = of_int \<lfloor>r\<rfloor> | _ \<Rightarrow> False)"

definition is_str :: "cell \<Rightarrow> bool" where
  "is_str c = (case c of Str _ \<Rightarrow> True | _ \<Rightarrow> False)"

definition column_dtype :: "cell list \<Rightarrow> dtype" where
  "column_dtype cells =
     (if cells = [] then Object
      else if list_ex is_str cells then Object
      else if list_all is_whole cells then Int64
      else Float64)"

text \<open>
  The check of one key pair, on the key columns of the two grouped frames (their types
  are those of the sheets' columns, their values the group keys). Nothing is checked when
  a frame is empty. A numeric column against an \<^verbatim>\<open>object\<close> column is refused when the
  latter's values are inferred as strings or mixed, that is, when it holds no whole number.
\<close>

definition merge_keys_clash :: "dtype \<Rightarrow> cell list \<Rightarrow> dtype \<Rightarrow> cell list \<Rightarrow> bool" where
  "merge_keys_clash lk_dtype lk rk_dtype rk =
     (if lk = [] then False
      else if rk = [] then False
      else if lk_dtype = rk_dtype then False
      else if lk_dtype = Object then list_all (\<lambda>c. \<not> is_whole c) lk
      else if rk_dtype = Object then list_all (\<lambda>c. \<not> is_whole c) rk
      else False)"

text \<open>Distinct values in order of first appearance.\<close>

fun unique :: "'a list \<Rightarrow> 'a list" where
  "unique [] = []"
| "unique (x # xs) = x # unique (removeAll x xs)"

text \<open>\<^verbatim>\<open>merged.groupby("Cluster", sort=False)\<close>.\<close>

definition groupby_cluster :: "mrow list \<Rightarrow> (string \<times> mrow list) list" where
  "groupby_cluster m = map (\<lambda>c. (c, filter (\<lambda>r. cluster r = c) m)) (unique (map cluster m))"

section \<open>Rollup\<close>

text \<open>A row of \<^verbatim>\<open>pivot2\<close>; None is Python's None.\<close>

record prow =
  Cluster :: string
  Employee_Responsible :: cell
  OB_Total :: rat
  OB_Remaining :: "fval option"
  OB_Achiev :: "fval option"
  Sales_Total :: rat
  Sales_Remaining :: "fval option"
  Sales_Achiev :: "fval option"
  Target :: "fval option"

text \<open>
  \<^verbatim>\<open>emp_targets.get(clust, sub["Employee Responsible"].map(emp_targets).sum(min_count=1))\<close>.
\<close>

definition cluster_target :: "(cell \<rightharpoonup> rat) \<Rightarrow> string \<Rightarrow> mrow list \<Rightarrow> fval" where
  "cluster_target emp_targets clust sub =
     (case emp_targets (Str clust) of
        Some t \<Rightarrow> Fin t
      | None \<Rightarrow> sum_min_count1 (map (\<lambda>r. emp_targets (employee_responsible r)) sub))"

definition achv_pct :: "rat \<Rightarrow> fval option \<Rightarrow> fval option" where
  "achv_pct total_mn cl_target_mn =
     (if truthy cl_target_mn
      then map_option (\<lambda>t. fround (fmul (fdiv (Fin total_mn) t) (Fin 100)) 2) cl_target_mn
      else None)"

definition subtotal_row :: "(cell \<rightharpoonup> rat) \<Rightarrow> string \<Rightarrow> mrow list \<Rightarrow> prow" where
  "subtotal_row emp_targets clust sub =
     (let subtotal_ob = sum_list (map minr_ob sub);
          subtotal_sales = sum_list (map minr_sales sub);
          total_ob_mn = py_round (subtotal_ob / EMP_SCALE) EMP_DEC;
          total_sales_mn = py_round (subtotal_sales / EMP_SCALE) EMP_DEC;
          cl_target = Some (cluster_target emp_targets clust sub);
          cl_target = map_option (\<lambda>t. fround t EMP_DEC) cl_target;
          cl_target_mn = map_option (\<lambda>t. fround (fdiv t (Fin EMP_SCALE)) EMP_DEC) cl_target;
          remaining_ob_mn = map_option (\<lambda>t. fround (fsub t (Fin total_ob_mn)) EMP_DEC) cl_target_mn;
          remaining_sales_mn = map_option (\<lambda>t. fround (fsub t (Fin total_sales_mn)) EMP_DEC) cl_target_mn
      in \<lparr>Cluster = clust, Employee_Responsible = Str (clust @ '' Total''),
          OB_Total = total_ob_mn, OB_Remaining = remaining_ob_mn,
          OB_Achiev = achv_pct total_ob_mn cl_target_mn,
          Sales_Total = total_sales_mn, Sales_Remaining = remaining_sales_mn,
          Sales_Achiev = achv_pct total_sales_mn cl_target_mn,
          Target = cl_target_mn\<rparr>)"

text \<open>\<^verbatim>\<open>d.get(key, default)\<close>.\<close>

definition dict_get :: "('k \<rightharpoonup> 'v) \<Rightarrow> 'k \<Rightarrow> 'v \<Rightarrow> 'v" where
  "dict_get d key dflt = (case d key of Some v \<Rightarrow> v | None \<Rightarrow> dflt)"

definition emp_row :: "(cell \<rightharpoonup> rat) \<Rightarrow> string \<Rightarrow> mrow \<Rightarrow> prow" where
  "emp_row emp_targets clust r =
     (let name = employee_responsible r;
          tgt = dict_get emp_targets name 0;
          tgt_mn = (if tgt > 0 then py_round (tgt / EMP_SCALE) EMP_DEC else 0);
          ob_total = py_round (minr_ob r / EMP_SCALE) EMP_DEC;
          sales_total = py_round (minr_sales r / EMP_SCALE) EMP_DEC;
          ob_rem = (if tgt_mn > 0 then py_round (tgt_mn - ob_total) EMP_DEC else 0);
          sales_rem = (if tgt_mn > 0 then py_round (tgt_mn - sales_total) EMP_DEC else 0);
          ob_ach = (if tgt_mn > 0 then py_round (ob_total / tgt_mn * 100) 2 else 0);
          sales_ach = (if tgt_mn > 0 then py_round (sales_total / tgt_mn * 100) 2 else 0)
      in \<lparr>Cluster = clust, Employee_Responsible = name,
          OB_Total = ob_total, OB_Remaining = Some (Fin ob_rem), OB_Achiev = Some (Fin ob_ach),
          Sales_Total = sales_total, Sales_Remaining = Some (Fin sales_rem),
          Sales_Achiev = Some (Fin sales_ach),
          Target = Some (Fin tgt_mn)\<rparr>)"

text \<open>The loop over the cluster groups: each subtotal row, then its members' rows.\<close>

definition pivot2_rows :: "(cell \<rightharpoonup> rat) \<Rightarrow> mrow list \<Rightarrow> prow list" where
  "pivot2_rows emp_targets m =
     concat (map (\<lambda>(clust, sub). subtotal_row emp_targets clust sub # map (emp_row emp_targets clust) sub)
                 (groupby_cluster m))"

text \<open>
  A value that the rendered table shows as missing: None and NaN both become NaN in the
  \<^verbatim>\<open>pivot2\<close> frame.
\<close>

fun is_null :: "fval option \<Rightarrow> bool" where
  "is_null None = True"
| "is_null (Some NaN) = True"
| "is_null (Some (Fin x)) = False"

definition cluster_rows_of :: "(cell \<rightharpoonup> rat) \<Rightarrow> mrow list \<Rightarrow> prow list" where
  "cluster_rows_of emp_targets m =
     map (\<lambda>(clust, sub). subtotal_row emp_targets clust sub) (groupby_cluster m)"

section \<open>Business units\<close>

definition get_bu_from_helios :: "cell \<Rightarrow> string" where
  "get_bu_from_helios helios_code =
     (case helios_code of
        Str code \<Rightarrow>
          if prefix ''PP'' code then ''PP''
          else if prefix ''HD'' code then ''H&D''
          else if prefix ''ID'' code then ''IND''
          else if prefix ''SP'' code \<or> prefix ''PS'' code then ''SP''
          else if prefix ''DP'' code \<or> prefix ''DE'' code then ''DE''
          else ''Other''
      | _ \<Rightarrow> ''Other'')"

text \<open>
  \<^verbatim>\<open>df["BU"] = df["Helios Code"].apply(get_bu_from_helios)\<close>, then
  \<^verbatim>\<open>df.groupby("BU", as_index=False)[col].sum()\<close>: one row per BU label, in sorted order.
\<close>

definition groupby_bu_sum :: "txn list \<Rightarrow> (string \<times> rat) list" where
  "groupby_bu_sum df =
     (let bu = (\<lambda>t. get_bu_from_helios (helios t)) in
      map (\<lambda>b. (b, sum_list (map minr (filter (\<lambda>t. bu t = b) df))))
          (sort (remdups (map bu df))))"

text \<open>
  \<^verbatim>\<open>row = frame[frame["BU"] == bu_name]\<close>, then the first value of the row if there is one,
  else 0.
\<close>

definition bu_value :: "(string \<times> rat) list \<Rightarrow> cell \<Rightarrow> rat" where
  "bu_value frame bu_name =
     (case filter (\<lambda>p. Str (fst p) = bu_name) frame of
        [] \<Rightarrow> 0
      | p # _ \<Rightarrow> snd p)"

text \<open>
  \<^verbatim>\<open>f"{round(v / bu_target * 100, 2)}%" if bu_target else "0.00%"\<close>. The quotient is
  negative, also when it is or rounds to zero, when exactly one of value and target is
  negative (a zero value counts as positive).
\<close>

definition bu_ach :: "rat \<Rightarrow> rat \<Rightarrow> string" where
  "bu_ach v bu_target =
     (if bu_target \<noteq> 0
      then str_hundredths ((v < 0) \<noteq> (bu_target < 0)) (py_round (v / bu_target * 100) 2) @ ''%''
      else ''0.00%'')"

record bu_row =
  BU :: cell
  OB_mn :: rat
  OB_Remaining_mn :: rat
  ACH_OB :: string
  Sales_mn :: rat
  Sales_Remaining_mn :: rat
  ACH_Sales :: string
  Target_mn :: rat

text \<open>The body of the BU loop below its two lookups: the row computed from the two figures.\<close>

definition bu_row_from :: "rat \<Rightarrow> rat \<Rightarrow> cell \<times> rat \<Rightarrow> bu_row" where
  "bu_row_from sales ob item =
     (let bu_name = fst item; bu_target = snd item;
          remaining_sales = bu_target - sales;
          remaining_ob = bu_target - ob
      in \<lparr>BU = bu_name,
          OB_mn = py_round (ob / EMP_SCALE) EMP_DEC,
          OB_Remaining_mn = py_round (remaining_ob / EMP_SCALE) EMP_DEC,
          ACH_OB = bu_ach ob bu_target,
          Sales_mn = py_round (sales / EMP_SCALE) EMP_DEC,
          Sales_Remaining_mn = py_round (remaining_sales / EMP_SCALE) EMP_DEC,
          ACH_Sales = bu_ach sales bu_target,
          Target_mn = py_round (bu_target / EMP_SCALE) EMP_DEC\<rparr>)"

text \<open>One pass of the BU loop: the two lookups by \<^verbatim>\<open>bu_name\<close>, then the row.\<close>

definition bu_performance_row :: "(string \<times> rat) list \<Rightarrow> (string \<times> rat) list \<Rightarrow> cell \<times> rat \<Rightarrow> bu_row" where
  "bu_performance_row bu_sales_df bu_ob_df item =
     bu_row_from (bu_value bu_sales_df (fst item)) (bu_value bu_ob_df (fst item)) item"

text \<open>
  The loop \<^verbatim>\<open>for bu_name, bu_target in bu_targets.items()\<close>; the dict is given by its items
  in insertion order.
\<close>

definition bu_performance_rows :: "txn list \<Rightarrow> txn list \<Rightarrow> (cell \<times> rat) list \<Rightarrow> bu_row list" where
  "bu_performance_rows df_sales df_ob bu_targets =
     map (bu_performance_row (groupby_bu_sum df_sales) (groupby_bu_sum df_ob)) bu_targets"

section \<open>The request handler\<close>

text \<open>
  What ends a request early: a 400 response with its message, or an exception that leaves
  the handler uncaught (the server answers 500 without a message of the handler's): a
  KeyError with its key, or the ValueError of \<^verbatim>\<open>pd.merge\<close> with the types of the left and
  the right key column.
\<close>

datatype error = Bad_Request string | KeyError string | ValueError dtype dtype

text \<open>
  \<^verbatim>\<open>str.strip()\<close>. A string is the list of its UTF-8 bytes; the white space characters,
  those for which \<^verbatim>\<open>str.isspace()\<close> holds, are U+0009 to U+000D, U+001C to U+0020, U+0085,
  U+00A0, U+1680, U+2000 to U+200A, U+2028, U+2029, U+202F, U+205F and U+3000.
\<close>

definition WHITESPACE :: "string list" where
  "WHITESPACE =
    [[CHR 0x09], [CHR 0x0A], [CHR 0x0B], [CHR 0x0C], [CHR 0x0D],
     [CHR 0x1C], [CHR 0x1D], [CHR 0x1E], [CHR 0x1F], [CHR 0x20],
     [CHR 0xC2, CHR 0x85], [CHR 0xC2, CHR 0xA0], [CHR 0xE1, CHR 0x9A, CHR 0x80],
     [CHR 0xE2, CHR 0x80, CHR 0x80], [CHR 0xE2, CHR 0x80, CHR 0x81],
     [CHR 0xE2, CHR 0x80, CHR 0x82], [CHR 0xE2, CHR 0x80, CHR 0x83],
     [CHR 0xE2, CHR 0x80, CHR 0x84], [CHR 0xE2, CHR 0x80, CHR 0x85],
     [CHR 0xE2, CHR 0x80, CHR 0x86], [CHR 0xE2, CHR 0x80, CHR 0x87],
     [CHR 0xE2, CHR 0x80, CHR 0x88], [CHR 0xE2, CHR 0x80, CHR 0x89],
     [CHR 0xE2, CHR 0x80, CHR 0x8A], [CHR 0xE2, CHR 0x80, CHR 0xA8],
     [CHR 0xE2, CHR 0x80, CHR 0xA9], [CHR 0xE2, CHR 0x80, CHR 0xAF],
     [CHR 0xE2, CHR 0x81, CHR 0x9F], [CHR 0xE3, CHR 0x80, CHR 0x80]]"

text \<open>Drop from the front of \<open>s\<close> every leading occurrence of one of the sequences \<open>ws\<close>.\<close>

function strip_front :: "string list \<Rightarrow> string \<Rightarrow> string" where
  "strip_front ws s =
     (case find (\<lambda>w. w \<noteq> [] \<and> prefix w s) ws of
        None \<Rightarrow> s
      | Some w \<Rightarrow> strip_front ws (drop (length w) s))"
  by pat_completeness auto
termination
proof (relation "measure (\<lambda>(ws, s). length s)")
  show "wf (measure (\<lambda>(ws, s). length s))" by simp
next
  fix ws :: "string list" and s w :: string
  assume "find (\<lambda>w. w \<noteq> [] \<and> prefix w s) ws = Some w"
  then have "w \<noteq> []" and "prefix w s"
    by (auto simp: find_Some_iff)
  then have "0 < length w" and "length w \<le> length s"
    by (auto simp: prefix_def)
  then have "length s - length w < length s"
    by arith
  then show "((ws, drop (length w) s), (ws, s)) \<in> measure (\<lambda>(ws, s). length s)"
    by simp
qed

definition strip :: "string \<Rightarrow> string" where
  "strip s = rev (strip_front (map rev WHITESPACE) (rev (strip_front WHITESPACE s)))"

definition join :: "string \<Rightarrow> string list \<Rightarrow> string" where
  "join sep xs = (case xs of [] \<Rightarrow> [] | y # ys \<Rightarrow> foldl (\<lambda>acc x. acc @ sep @ x) y ys)"

text \<open>The warning sign and variation selector that open every message, in UTF-8, and a space.\<close>

definition WARN :: string where
  "WARN = [CHR 0xE2, CHR 0x9A, CHR 0xA0, CHR 0xEF, CHR 0xB8, CHR 0x8F, CHR 0x20]"

text \<open>
  One pass of \<^verbatim>\<open>for df in [df_sales, df_ob]\<close> on the header: the labels are stripped,
  \<^verbatim>\<open>df['Employee Responsible']\<close> raises KeyError when the column is absent, and the
  \<^verbatim>\<open>Cluster\<close> column is written (appended unless present).
\<close>

definition add_cluster_column :: "string list \<Rightarrow> error + string list" where
  "add_cluster_column cols =
     (let cols = map strip cols in
      if ''Employee Responsible'' \<in> set cols
      then Inr (if ''Cluster'' \<in> set cols then cols else cols @ [''Cluster''])
      else Inl (KeyError ''Employee Responsible''))"

record report =
  pivot2 :: "prow list"
  cluster_rows :: "prow list"
  bu_rows :: "bu_row list"

text \<open>
  \<^verbatim>\<open>upload\<close>, from the parsed sheets and the two target dicts to the tables it renders. Of
  the chart section only its exception is modelled: with no employee row at all,
  \<^verbatim>\<open>pd.DataFrame(emp_rows).dropna(subset=["Target"])\<close> raises a KeyError. The charts
  themselves and the product-code cross table are left out.
\<close>

definition upload :: "sheet \<Rightarrow> sheet \<Rightarrow> (cell \<rightharpoonup> rat) \<Rightarrow> (cell \<times> rat) list \<Rightarrow> error + report" where
  "upload df_sales df_ob emp_targets bu_targets =
     (case add_cluster_column (columns df_sales) of
        Inl e \<Rightarrow> Inl e
      | Inr sales_columns \<Rightarrow>
     (case add_cluster_column (columns df_ob) of
        Inl e \<Rightarrow> Inl e
      | Inr ob_columns \<Rightarrow>
     (let missing = filter (\<lambda>c. c \<notin> set sales_columns) ID_COLS;
          missing_ob = filter (\<lambda>c. c \<notin> set ob_columns) ID_COLS
      in if missing \<noteq> [] then
           Inl (Bad_Request (WARN @ ''Missing column(s) in sales: '' @ join '', '' missing))
         else if missing_ob \<noteq> [] then
           Inl (Bad_Request (WARN @ ''Missing column(s) in OB: '' @ join '', '' missing_ob))
         else if ''MINR-2025'' \<notin> set sales_columns then
           Inl (Bad_Request (WARN @ ''Column '' @ [CHR 0x27] @ ''MINR-2025'' @ [CHR 0x27] @
                             '' not found in the sales sheet.''))
         else if ''MINR-2025'' \<notin> set ob_columns then
           Inl (Bad_Request (WARN @ ''Column '' @ [CHR 0x27] @ ''MINR-2025'' @ [CHR 0x27] @
                             '' not found in the OB sheet.''))
         else
           (let grp_sales = groupby_sum (assign_cluster (records df_sales));
                grp_ob = groupby_sum (assign_cluster (records df_ob));
                ob_dtype = column_dtype (map employee (records df_ob));
                sales_dtype = column_dtype (map employee (records df_sales))
            in if merge_keys_clash ob_dtype (map (\<lambda>g. snd (fst g)) grp_ob)
                                   sales_dtype (map (\<lambda>g. snd (fst g)) grp_sales)
               then Inl (ValueError ob_dtype sales_dtype)
               else
                 (let m = merged grp_ob grp_sales
                  in if m = [] then Inl (KeyError (''['' @ [CHR 0x27] @ ''Target'' @ [CHR 0x27] @ '']''))
                     else Inr \<lparr>pivot2 = pivot2_rows emp_targets m,
                              cluster_rows = cluster_rows_of emp_targets m,
                              bu_rows = bu_performance_rows (records df_sales) (records df_ob)
                                          bu_targets\<rparr>)))))"

section \<open>Properties of the classifier\<close>

lemma py_in_sublist: "py_in p s = sublist p s"
  by (induction s) (auto simp: sublist_Cons_right)

lemma get_cluster_loop_no_match:
  "\<forall>kc \<in> set items. \<not> sublist (fst kc) name \<Longrightarrow> get_cluster_loop items name = DEFAULT_CLUSTER"
  by (induction items) (auto simp: py_in_sublist)

lemma get_cluster_loop_first_match:
  "i < length items \<Longrightarrow> sublist (fst (items ! i)) name \<Longrightarrow>
   \<forall>j < i. \<not> sublist (fst (items ! j)) name \<Longrightarrow>
   get_cluster_loop items name = snd (items ! i)"
proof (induction items arbitrary: i)
  case Nil
  then show ?case by simp
next
  case (Cons kc items)
  obtain k c where kc: "kc = (k, c)" by (cases kc)
  show ?case
  proof (cases i)
    case 0
    with Cons.prems kc show ?thesis by (simp add: py_in_sublist)
  next
    case (Suc n)
    from Cons.prems(3) Suc have "\<not> sublist (fst ((kc # items) ! 0)) name" by blast
    then have nk: "\<not> py_in k name" using kc by (simp add: py_in_sublist)
    have "\<forall>j < n. \<not> sublist (fst (items ! j)) name"
    proof (intro allI impI)
      fix j assume "j < n"
      then have "Suc j < i" using Suc by simp
      with Cons.prems(3) have "\<not> sublist (fst ((kc # items) ! Suc j)) name" by blast
      then show "\<not> sublist (fst (items ! j)) name" by simp
    qed
    moreover have "n < length items" "sublist (fst (items ! n)) name"
      using Cons.prems(1,2) Suc by simp_all
    ultimately have "get_cluster_loop items name = snd (items ! n)"
      using Cons.IH by blast
    with nk kc Suc show ?thesis by simp
  qed
qed

text \<open>
  C8. \<^verbatim>\<open>get_cluster\<close> returns a cluster for every input: the default cluster for every
  input that is not a string and for every string in which no pattern of the mapping
  occurs; for a string, the cluster of the first pattern, in the mapping's insertion
  order, that occurs in it as a (case-sensitive) substring. The first match wins, not the
  longest: \<^verbatim>\<open>Sunny Arti\<close> goes to CG by the pattern \<^verbatim>\<open>Arti\<close>, although the pattern
  \<^verbatim>\<open>Sunny\<close> (JSR) is longer and occurs first in the name. The match is case-sensitive:
  \<^verbatim>\<open>Pritesh\<close> goes to CG, \<^verbatim>\<open>pritesh\<close> to the default.
\<close>

theorem get_cluster_total_first_match:
  "(\<forall>v. (\<forall>s. v \<noteq> Str s) \<longrightarrow> get_cluster v = DEFAULT_CLUSTER) \<and>
   (\<forall>s. (\<forall>kc \<in> set EMPLOYEE_CLUSTER_MAP. \<not> sublist (fst kc) s) \<longrightarrow>
        get_cluster (Str s) = DEFAULT_CLUSTER) \<and>
   (\<forall>s i. i < length EMPLOYEE_CLUSTER_MAP \<and> sublist (fst (EMPLOYEE_CLUSTER_MAP ! i)) s \<and>
          (\<forall>j < i. \<not> sublist (fst (EMPLOYEE_CLUSTER_MAP ! j)) s) \<longrightarrow>
        get_cluster (Str s) = snd (EMPLOYEE_CLUSTER_MAP ! i)) \<and>
   get_cluster (Str ''Sunny Arti'') = ''CG'' \<and>
   get_cluster (Str ''Pritesh'') = ''CG'' \<and> get_cluster (Str ''pritesh'') = DEFAULT_CLUSTER"
proof (intro conjI allI impI)
  fix v assume "\<forall>s. v \<noteq> Str s"
  then show "get_cluster v = DEFAULT_CLUSTER"
    by (cases v) (simp_all add: get_cluster_def)
next
  fix s assume "\<forall>kc \<in> set EMPLOYEE_CLUSTER_MAP. \<not> sublist (fst kc) s"
  then have "get_cluster_loop EMPLOYEE_CLUSTER_MAP s = DEFAULT_CLUSTER"
    by (rule get_cluster_loop_no_match)
  then show "get_cluster (Str s) = DEFAULT_CLUSTER"
    by (simp add: get_cluster_def)
next
  fix s i
  assume "i < length EMPLOYEE_CLUSTER_MAP \<and> sublist (fst (EMPLOYEE_CLUSTER_MAP ! i)) s \<and>
          (\<forall>j < i. \<not> sublist (fst (EMPLOYEE_CLUSTER_MAP ! j)) s)"
  then have "get_cluster_loop EMPLOYEE_CLUSTER_MAP s = snd (EMPLOYEE_CLUSTER_MAP ! i)"
    using get_cluster_loop_first_match by blast
  then show "get_cluster (Str s) = snd (EMPLOYEE_CLUSTER_MAP ! i)"
    by (simp add: get_cluster_def)
next
  show "get_cluster (Str ''Sunny Arti'') = ''CG''"
    by code_simp
next
  show "get_cluster (Str ''Pritesh'') = ''CG''"
    by code_simp
next
  show "get_cluster (Str ''pritesh'') = DEFAULT_CLUSTER"
    by code_simp
qed

theorem get_cluster_total_first_match_witness:
  "get_cluster (Num 7) = DEFAULT_CLUSTER \<and> get_cluster Blank = DEFAULT_CLUSTER \<and>
   get_cluster (Str ''Zed'') = DEFAULT_CLUSTER \<and>
   get_cluster (Str ''Sunny Arti'') = snd (EMPLOYEE_CLUSTER_MAP ! 4)"
proof -
  note t = get_cluster_total_first_match
  have n1: "\<forall>s. Num 7 \<noteq> Str s" and n2: "\<forall>s. Blank \<noteq> Str s" by simp_all
  have h2: "\<forall>kc \<in> set EMPLOYEE_CLUSTER_MAP. \<not> sublist (fst kc) ''Zed''"
    by code_simp
  have a: "\<forall>j \<in> set [0..<4]. \<not> sublist (fst (EMPLOYEE_CLUSTER_MAP ! j)) ''Sunny Arti''"
    by code_simp
  have b: "4 < length EMPLOYEE_CLUSTER_MAP \<and> sublist (fst (EMPLOYEE_CLUSTER_MAP ! 4)) ''Sunny Arti''"
    by code_simp
  from a b have h3: "4 < length EMPLOYEE_CLUSTER_MAP \<and>
      sublist (fst (EMPLOYEE_CLUSTER_MAP ! 4)) ''Sunny Arti'' \<and>
      (\<forall>j < 4. \<not> sublist (fst (EMPLOYEE_CLUSTER_MAP ! j)) ''Sunny Arti'')" by simp
  from t n1 have "get_cluster (Num 7) = DEFAULT_CLUSTER" by blast
  moreover from t n2 have "get_cluster Blank = DEFAULT_CLUSTER" by blast
  moreover from t h2 have "get_cluster (Str ''Zed'') = DEFAULT_CLUSTER" by blast
  moreover from t h3 have "get_cluster (Str ''Sunny Arti'') = snd (EMPLOYEE_CLUSTER_MAP ! 4)" by blast
  ultimately show ?thesis by simp
qed

section \<open>Properties of the request handler\<close>

lemma upload_Inr_report:
  "upload df_sales df_ob emp_targets bu_targets = Inr rep \<Longrightarrow>
   rep = \<lparr>pivot2 = pivot2_rows emp_targets
             (merged (groupby_sum (assign_cluster (records df_ob)))
                     (groupby_sum (assign_cluster (records df_sales)))),
          cluster_rows = cluster_rows_of emp_targets
             (merged (groupby_sum (assign_cluster (records df_ob)))
                     (groupby_sum (assign_cluster (records df_sales)))),
          bu_rows = bu_performance_rows (records df_sales) (records df_ob) bu_targets\<rparr>"
  unfolding upload_def Let_def
  by (auto split: sum.splits if_splits)

text \<open>
  C3. The round-trip scenario: one sales row (Arun, PP1, 100), one OB row (Arun, PP1, 40),
  employee targets \<open>{Arun: 200}\<close>, any BU targets. The handler emits the OD subtotal row
  and Arun's row, both with OB total 40, sales total 100, target 200, OB remaining 160,
  sales remaining 100, OB achievement 20 and sales achievement 50.
\<close>

theorem round_trip_scenario:
  "\<exists>rep. upload
     \<lparr>columns = [''Employee Responsible'', ''Helios Code'', ''MINR-2025''],
      records = [\<lparr>employee = Str ''Arun'', helios = Str ''PP1'', minr = 100\<rparr>]\<rparr>
     \<lparr>columns = [''Employee Responsible'', ''Helios Code'', ''MINR-2025''],
      records = [\<lparr>employee = Str ''Arun'', helios = Str ''PP1'', minr = 40\<rparr>]\<rparr>
     [Str ''Arun'' \<mapsto> 200] bu_targets = Inr rep \<and>
    pivot2 rep =
        [\<lparr>Cluster = ''OD'', Employee_Responsible = Str ''OD Total'',
            OB_Total = 40, OB_Remaining = Some (Fin 160), OB_Achiev = Some (Fin 20),
            Sales_Total = 100, Sales_Remaining = Some (Fin 100), Sales_Achiev = Some (Fin 50),
            Target = Some (Fin 200)\<rparr>,
         \<lparr>Cluster = ''OD'', Employee_Responsible = Str ''Arun'',
            OB_Total = 40, OB_Remaining = Some (Fin 160), OB_Achiev = Some (Fin 20),
            Sales_Total = 100, Sales_Remaining = Some (Fin 100), Sales_Achiev = Some (Fin 50),
            Target = Some (Fin 200)\<rparr>]"
proof -
  let ?ob = "[\<lparr>employee = Str ''Arun'', helios = Str ''PP1'', minr = 40\<rparr>]"
  let ?sales = "[\<lparr>employee = Str ''Arun'', helios = Str ''PP1'', minr = 100\<rparr>]"
  let ?m = "[\<lparr>cluster = ''OD'', employee_responsible = Str ''Arun'', minr_ob = 40, minr_sales = 100\<rparr>]"
  have v: "add_cluster_column [''Employee Responsible'', ''Helios Code'', ''MINR-2025'']
           = Inr [''Employee Responsible'', ''Helios Code'', ''MINR-2025'', ''Cluster'']"
    by code_simp
  have c: "\<not> merge_keys_clash (column_dtype (map employee ?ob))
             (map (\<lambda>g. snd (fst g)) (groupby_sum (assign_cluster ?ob)))
             (column_dtype (map employee ?sales))
             (map (\<lambda>g. snd (fst g)) (groupby_sum (assign_cluster ?sales)))"
    by code_simp
  have m: "merged (groupby_sum (assign_cluster ?ob)) (groupby_sum (assign_cluster ?sales)) = ?m"
    by code_simp
  have p: "pivot2_rows [Str ''Arun'' \<mapsto> 200] ?m
          = [\<lparr>Cluster = ''OD'', Employee_Responsible = Str ''OD Total'',
            OB_Total = 40, OB_Remaining = Some (Fin 160), OB_Achiev = Some (Fin 20),
            Sales_Total = 100, Sales_Remaining = Some (Fin 100), Sales_Achiev = Some (Fin 50),
            Target = Some (Fin 200)\<rparr>,
         \<lparr>Cluster = ''OD'', Employee_Responsible = Str ''Arun'',
            OB_Total = 40, OB_Remaining = Some (Fin 160), OB_Achiev = Some (Fin 20),
            Sales_Total = 100, Sales_Remaining = Some (Fin 100), Sales_Achiev = Some (Fin 50),
            Target = Some (Fin 200)\<rparr>]"
    by code_simp
  show ?thesis
    unfolding upload_def sheet.simps v sum.case Let_def m
    using c by (simp add: p ID_COLS_def)
qed

text \<open>
  C5. In the BU scenario (product code PP1, BU targets \<open>{PP: 1000, SP: 0}\<close>, sales 100,
  OB 40) the PP row has sales 100, sales remaining 900 and target 1000, but its achievement
  strings are \<^verbatim>\<open>10.0%\<close> and \<^verbatim>\<open>4.0%\<close>: the number rounded to two places is printed in
  its shortest form, with one decimal, where the zero-target default, on the SP row, is
  \<^verbatim>\<open>0.00%\<close>.
\<close>

theorem bu_scenario_achievement_string:
  "upload
     \<lparr>columns = [''Employee Responsible'', ''Helios Code'', ''MINR-2025''],
      records = [\<lparr>employee = Str ''Arun'', helios = Str ''PP1'', minr = 100\<rparr>]\<rparr>
     \<lparr>columns = [''Employee Responsible'', ''Helios Code'', ''MINR-2025''],
      records = [\<lparr>employee = Str ''Arun'', helios = Str ''PP1'', minr = 40\<rparr>]\<rparr>
     Map.empty [(Str ''PP'', 1000), (Str ''SP'', 0)]
   = Inr \<lparr>pivot2 =
        [\<lparr>Cluster = ''OD'', Employee_Responsible = Str ''OD Total'',
            OB_Total = 40, OB_Remaining = Some NaN, OB_Achiev = Some NaN,
            Sales_Total = 100, Sales_Remaining = Some NaN, Sales_Achiev = Some NaN,
            Target = Some NaN\<rparr>,
         \<lparr>Cluster = ''OD'', Employee_Responsible = Str ''Arun'',
            OB_Total = 40, OB_Remaining = Some (Fin 0), OB_Achiev = Some (Fin 0),
            Sales_Total = 100, Sales_Remaining = Some (Fin 0), Sales_Achiev = Some (Fin 0),
            Target = Some (Fin 0)\<rparr>],
        cluster_rows =
        [\<lparr>Cluster = ''OD'', Employee_Responsible = Str ''OD Total'',
            OB_Total = 40, OB_Remaining = Some NaN, OB_Achiev = Some NaN,
            Sales_Total = 100, Sales_Remaining = Some NaN, Sales_Achiev = Some NaN,
            Target = Some NaN\<rparr>],
        bu_rows =
        [\<lparr>BU = Str ''PP'', OB_mn = 40, OB_Remaining_mn = 960, ACH_OB = ''4.0%'',
            Sales_mn = 100, Sales_Remaining_mn = 900, ACH_Sales = ''10.0%'',
            Target_mn = 1000\<rparr>,
         \<lparr>BU = Str ''SP'', OB_mn = 0, OB_Remaining_mn = 0, ACH_OB = ''0.00%'',
            Sales_mn = 0, Sales_Remaining_mn = 0, ACH_Sales = ''0.00%'',
            Target_mn = 0\<rparr>]\<rparr>"
  by code_simp

text \<open>
  A sheet that has the employee column but lacks \<^verbatim>\<open>Helios Code\<close> or the measure column is
  answered with a 400 message that names the column.
\<close>

lemma upload_missing_helios_code:
  assumes "''Employee Responsible'' \<in> set (map strip (columns df_sales))"
    and "''Employee Responsible'' \<in> set (map strip (columns df_ob))"
    and "''Helios Code'' \<notin> set (map strip (columns df_sales))"
  shows "upload df_sales df_ob emp_targets bu_targets
         = Inl (Bad_Request (WARN @ ''Missing column(s) in sales: Helios Code''))"
  using assms by (simp add: upload_def add_cluster_column_def Let_def ID_COLS_def join_def)

lemma upload_missing_measure:
  assumes "''Employee Responsible'' \<in> set (map strip (columns df_sales))"
    and "''Employee Responsible'' \<in> set (map strip (columns df_ob))"
    and "''Helios Code'' \<in> set (map strip (columns df_sales))"
    and "''Helios Code'' \<in> set (map strip (columns df_ob))"
    and "''MINR-2025'' \<notin> set (map strip (columns df_sales))"
  shows "upload df_sales df_ob emp_targets bu_targets
         = Inl (Bad_Request (WARN @ ''Column '' @ [CHR 0x27] @ ''MINR-2025'' @ [CHR 0x27] @
                             '' not found in the sales sheet.''))"
  using assms by (simp add: upload_def add_cluster_column_def Let_def ID_COLS_def join_def)

text \<open>
  C9. When the sales sheet has no \<^verbatim>\<open>Employee Responsible\<close> column, the request ends with
  the KeyError raised while the cluster column is computed, before the check for missing
  columns is reached: no message naming the column is returned.
\<close>

theorem upload_missing_employee_column:
  "''Employee Responsible'' \<notin> set (map strip (columns df_sales)) \<Longrightarrow>
   upload df_sales df_ob emp_targets bu_targets = Inl (KeyError ''Employee Responsible'')"
  by (simp add: upload_def add_cluster_column_def Let_def)

theorem upload_missing_employee_column_witness:
  "upload
     \<lparr>columns = [''Helios Code'', ''MINR-2025''],
      records = [\<lparr>employee = Blank, helios = Str ''PP1'', minr = 100\<rparr>]\<rparr>
     \<lparr>columns = [''Employee Responsible'', ''Helios Code'', ''MINR-2025''],
      records = [\<lparr>employee = Str ''Arun'', helios = Str ''PP1'', minr = 40\<rparr>]\<rparr>
     Map.empty [] = Inl (KeyError ''Employee Responsible'')"
proof -
  have h: "''Employee Responsible'' \<notin> set (map strip (columns
     \<lparr>columns = [''Helios Code'', ''MINR-2025''],
      records = [\<lparr>employee = Blank, helios = Str ''PP1'', minr = 100\<rparr>]\<rparr>))"
    by code_simp
  show ?thesis by (rule upload_missing_employee_column [OF h])
qed

text \<open>
  The figure the BU loop looks up under a name is the sum of the measure over the rows whose
  BU label is that name, and 0 when there is none.
\<close>

lemma filter_fst_groups:
  "distinct ks \<Longrightarrow>
   filter (\<lambda>p. Str (fst p) = name) (map (\<lambda>b. (b, f b)) ks)
   = (case name of Str b \<Rightarrow> if b \<in> set ks then [(b, f b)] else [] | _ \<Rightarrow> [])"
proof (induction ks)
  case Nil
  then show ?case by (simp split: cell.splits)
next
  case (Cons a ks)
  then show ?case by (cases name) auto
qed

lemma bu_value_groupby_bu_sum:
  "bu_value (groupby_bu_sum df) name
   = sum_list (map minr (filter (\<lambda>t. Str (get_bu_from_helios (helios t)) = name) df))"
proof -
  let ?bu = "\<lambda>t. get_bu_from_helios (helios t)"
  let ?f = "\<lambda>b. sum_list (map minr (filter (\<lambda>t. ?bu t = b) df))"
  have g: "groupby_bu_sum df = map (\<lambda>b. (b, ?f b)) (sort (remdups (map ?bu df)))"
    by (simp add: groupby_bu_sum_def Let_def)
  have d: "distinct (sort (remdups (map ?bu df)))" by simp
  show ?thesis
  proof (cases name)
    case (Str b)
    show ?thesis
    proof (cases "b \<in> set (map ?bu df)")
      case True
      then show ?thesis
        unfolding bu_value_def g filter_fst_groups [OF d] Str by simp
    next
      case False
      then have "filter (\<lambda>t. Str (?bu t) = Str b) df = []"
        by (auto simp: filter_empty_conv)
      with False show ?thesis
        unfolding bu_value_def g filter_fst_groups [OF d] Str by simp
    qed
  next
    case (Num x)
    then show ?thesis
      unfolding bu_value_def g filter_fst_groups [OF d] by simp
  next
    case Blank
    then show ?thesis
      unfolding bu_value_def g filter_fst_groups [OF d] by simp
  qed
qed

text \<open>
  C10. When the request succeeds, the BU table has one row per item of the BU-targets
  dict, in the dict's order, and a BU label that is not a key of the dict has no row.
  The figures of the data of such a BU appear nowhere: within the range of exact sums, the
  row of a key is computed from the sums over the sales rows and over the OB rows whose BU
  label is that key (0 when there are none), and the table is the one the handler
  computes from the sheets with the rows of all other BUs removed.
\<close>

theorem bu_rows_follow_targets:
  "upload df_sales df_ob emp_targets bu_targets = Inr rep \<Longrightarrow>
   map BU (bu_rows rep) = map fst bu_targets \<and>
   (\<forall>b. b \<notin> fst ` set bu_targets \<longrightarrow> (\<forall>r \<in> set (bu_rows rep). BU r \<noteq> b)) \<and>
   (exact_range (map minr (records df_sales)) \<and> exact_range (map minr (records df_ob)) \<longrightarrow>
      bu_rows rep
        = map (\<lambda>item. bu_row_from
                 (sum_list (map minr (filter (\<lambda>t. Str (get_bu_from_helios (helios t)) = fst item)
                                             (records df_sales))))
                 (sum_list (map minr (filter (\<lambda>t. Str (get_bu_from_helios (helios t)) = fst item)
                                             (records df_ob))))
                 item) bu_targets \<and>
      bu_rows rep
        = bu_performance_rows
            (filter (\<lambda>t. Str (get_bu_from_helios (helios t)) \<in> fst ` set bu_targets) (records df_sales))
            (filter (\<lambda>t. Str (get_bu_from_helios (helios t)) \<in> fst ` set bu_targets) (records df_ob))
            bu_targets)"
proof -
  assume "upload df_sales df_ob emp_targets bu_targets = Inr rep"
  then have r: "bu_rows rep = bu_performance_rows (records df_sales) (records df_ob) bu_targets"
    by (drule_tac upload_Inr_report) simp
  let ?own = "\<lambda>df item. filter (\<lambda>t. Str (get_bu_from_helios (helios t)) = fst item) df"
  let ?kept = "\<lambda>df. filter (\<lambda>t. Str (get_bu_from_helios (helios t)) \<in> fst ` set bu_targets) df"
  have e: "bu_performance_rows s ob bu_targets
           = map (\<lambda>item. bu_row_from (sum_list (map minr (?own s item)))
                                      (sum_list (map minr (?own ob item))) item) bu_targets"
    for s ob
    by (simp add: bu_performance_rows_def bu_performance_row_def bu_value_groupby_bu_sum)
  have m: "map BU (bu_rows rep) = map fst bu_targets"
    unfolding r e by (simp add: bu_row_from_def Let_def comp_def)
  have "BU ` set (bu_rows rep) = fst ` set bu_targets"
    using m by (metis set_map)
  then have n: "\<forall>b. b \<notin> fst ` set bu_targets \<longrightarrow> (\<forall>r \<in> set (bu_rows rep). BU r \<noteq> b)"
    by auto
  have own: "?own (?kept df) item = ?own df item" if "item \<in> set bu_targets" for df item
  proof -
    have f: "fst item \<in> fst ` set bu_targets" using that by simp
    show ?thesis
      unfolding filter_filter
    proof (rule filter_cong)
      fix x
      show "(Str (get_bu_from_helios (helios x)) \<in> fst ` set bu_targets \<and>
             Str (get_bu_from_helios (helios x)) = fst item)
            = (Str (get_bu_from_helios (helios x)) = fst item)"
        by (metis f)
    qed simp
  qed
  have k: "bu_performance_rows (?kept (records df_sales)) (?kept (records df_ob)) bu_targets
           = bu_performance_rows (records df_sales) (records df_ob) bu_targets"
    unfolding e
  proof (rule map_cong)
    fix item assume "item \<in> set bu_targets"
    then show "bu_row_from (sum_list (map minr (?own (?kept (records df_sales)) item)))
                 (sum_list (map minr (?own (?kept (records df_ob)) item))) item
               = bu_row_from (sum_list (map minr (?own (records df_sales) item)))
                 (sum_list (map minr (?own (records df_ob) item))) item"
      by (simp only: own)
  qed (rule refl)
  from m n r e k show ?thesis by simp
qed

theorem bu_rows_follow_targets_witness:
  "bu_performance_rows
     (filter (\<lambda>t. Str (get_bu_from_helios (helios t)) \<in> fst ` set [(Str ''PP'', 1000 :: rat)])
        [\<lparr>employee = Str ''Arun'', helios = Str ''PP1'', minr = 100\<rparr>,
         \<lparr>employee = Str ''Arun'', helios = Str ''HD7'', minr = 55\<rparr>])
     (filter (\<lambda>t. Str (get_bu_from_helios (helios t)) \<in> fst ` set [(Str ''PP'', 1000 :: rat)])
        [\<lparr>employee = Str ''Arun'', helios = Str ''HD7'', minr = 40\<rparr>])
     [(Str ''PP'', 1000)]
   = [\<lparr>BU = Str ''PP'', OB_mn = 0, OB_Remaining_mn = 1000, ACH_OB = ''0.0%'',
       Sales_mn = 100, Sales_Remaining_mn = 900, ACH_Sales = ''10.0%'', Target_mn = 1000\<rparr>] \<and>
   map BU (bu_performance_rows
        [\<lparr>employee = Str ''Arun'', helios = Str ''PP1'', minr = 100\<rparr>,
         \<lparr>employee = Str ''Arun'', helios = Str ''HD7'', minr = 55\<rparr>]
        [\<lparr>employee = Str ''Arun'', helios = Str ''HD7'', minr = 40\<rparr>]
        [(Str ''PP'', 1000)])
   = [Str ''PP'']"
proof -
  let ?S = "\<lparr>columns = [''Employee Responsible'', ''Helios Code'', ''MINR-2025''],
      records = [\<lparr>employee = Str ''Arun'', helios = Str ''PP1'', minr = 100\<rparr>,
                 \<lparr>employee = Str ''Arun'', helios = Str ''HD7'', minr = 55\<rparr>]\<rparr>"
  let ?O = "\<lparr>columns = [''Employee Responsible'', ''Helios Code'', ''MINR-2025''],
      records = [\<lparr>employee = Str ''Arun'', helios = Str ''HD7'', minr = 40\<rparr>]\<rparr>"
  let ?rows = "[\<lparr>BU = Str ''PP'', OB_mn = 0, OB_Remaining_mn = 1000, ACH_OB = ''0.0%'',
       Sales_mn = 100, Sales_Remaining_mn = 900, ACH_Sales = ''10.0%'', Target_mn = 1000\<rparr>]"
  let ?rep = "\<lparr>pivot2 =
        [\<lparr>Cluster = ''OD'', Employee_Responsible = Str ''OD Total'',
            OB_Total = 40, OB_Remaining = Some NaN, OB_Achiev = Some NaN,
            Sales_Total = 155, Sales_Remaining = Some NaN, Sales_Achiev = Some NaN,
            Target = Some NaN\<rparr>,
         \<lparr>Cluster = ''OD'', Employee_Responsible = Str ''Arun'',
            OB_Total = 40, OB_Remaining = Some (Fin 0), OB_Achiev = Some (Fin 0),
            Sales_Total = 155, Sales_Remaining = Some (Fin 0), Sales_Achiev = Some (Fin 0),
            Target = Some (Fin 0)\<rparr>],
        cluster_rows =
        [\<lparr>Cluster = ''OD'', Employee_Responsible = Str ''OD Total'',
            OB_Total = 40, OB_Remaining = Some NaN, OB_Achiev = Some NaN,
            Sales_Total = 155, Sales_Remaining = Some NaN, Sales_Achiev = Some NaN,
            Target = Some NaN\<rparr>],
        bu_rows = ?rows\<rparr>"
  have h: "upload ?S ?O Map.empty [(Str ''PP'', 1000)] = Inr ?rep"
    by code_simp
  have x: "exact_range (map minr (records ?S)) \<and> exact_range (map minr (records ?O))"
    by code_simp
  have b: "bu_rows ?rep = ?rows" by simp
  have rs: "records ?S = [\<lparr>employee = Str ''Arun'', helios = Str ''PP1'', minr = 100\<rparr>,
                 \<lparr>employee = Str ''Arun'', helios = Str ''HD7'', minr = 55\<rparr>]"
    and ro: "records ?O = [\<lparr>employee = Str ''Arun'', helios = Str ''HD7'', minr = 40\<rparr>]"
    by simp_all
  note t = bu_rows_follow_targets [OF h]
  from t x have "bu_rows ?rep = bu_performance_rows
            (filter (\<lambda>t. Str (get_bu_from_helios (helios t)) \<in> fst ` set [(Str ''PP'', 1000 :: rat)]) (records ?S))
            (filter (\<lambda>t. Str (get_bu_from_helios (helios t)) \<in> fst ` set [(Str ''PP'', 1000 :: rat)]) (records ?O))
            [(Str ''PP'', 1000)]"
    by blast
  then have c1: "bu_performance_rows
            (filter (\<lambda>t. Str (get_bu_from_helios (helios t)) \<in> fst ` set [(Str ''PP'', 1000 :: rat)]) (records ?S))
            (filter (\<lambda>t. Str (get_bu_from_helios (helios t)) \<in> fst ` set [(Str ''PP'', 1000 :: rat)]) (records ?O))
            [(Str ''PP'', 1000)] = ?rows"
    unfolding b by (rule sym)
  have c2: "map BU (bu_performance_rows (records ?S) (records ?O) [(Str ''PP'', 1000)]) = [Str ''PP'']"
    by code_simp
  from c1 c2 show ?thesis unfolding rs ro by (rule conjI)
qed

section \<open>Properties of the rollup\<close>






lemma set_unique: "set (unique xs) = set xs"
  by (induction xs rule: unique.induct) auto

lemma distinct_unique: "distinct (unique xs)"
  by (induction xs rule: unique.induct) (auto simp: set_unique)





lemma sum_min_count1_some:
  "\<exists>v \<in> set vs. v \<noteq> None \<Longrightarrow>
   sum_min_count1 vs = Fin (sum_list (map (\<lambda>v. case v of Some t \<Rightarrow> t | None \<Rightarrow> 0) vs))"
proof -
  assume a: "\<exists>v \<in> set vs. v \<noteq> None"
  have s: "sum_list (List.map_filter (\<lambda>v. v) vs)
             = sum_list (map (\<lambda>v. case v of Some t \<Rightarrow> t | None \<Rightarrow> (0::rat)) vs)"
    by (induction vs) (auto split: option.splits)
  have "List.map_filter (\<lambda>v. v) vs \<noteq> []"
    using a by (induction vs) (auto split: option.splits)
  then have "\<not> length (List.map_filter (\<lambda>v. v) vs) < 1"
    by (cases "List.map_filter (\<lambda>v. v) vs") simp_all
  then show ?thesis by (simp add: sum_min_count1_def Let_def s)
qed

lemma sum_min_count1_none:
  "\<forall>v \<in> set vs. v = None \<Longrightarrow> sum_min_count1 vs = NaN"
proof -
  assume "\<forall>v \<in> set vs. v = None"
  then have "List.map_filter (\<lambda>v. v) vs = []"
    by (induction vs) auto
  then show ?thesis by (simp add: sum_min_count1_def)
qed

text \<open>
  C7 (as amended). The resolved cluster target is the target-table entry of the cluster
  label when the label is a key of the employee target table. Otherwise, when at least one
  member employee is a key of the table, it is the sum over the member rows of the
  employee's target, an absent employee counting 0; and when no member is a key of the
  table it is NaN (null), not 0. The subtotal row reports it rounded to two decimals.
\<close>

theorem cluster_target_two_tier:
  "(\<forall>t. emp_targets (Str clust) = Some t \<longrightarrow> cluster_target emp_targets clust sub = Fin t) \<and>
   (emp_targets (Str clust) = None \<and> (\<exists>r \<in> set sub. emp_targets (employee_responsible r) \<noteq> None) \<longrightarrow>
      cluster_target emp_targets clust sub
        = Fin (sum_list (map (\<lambda>r. dict_get emp_targets (employee_responsible r) 0) sub))) \<and>
   (emp_targets (Str clust) = None \<and> (\<forall>r \<in> set sub. emp_targets (employee_responsible r) = None) \<longrightarrow>
      cluster_target emp_targets clust sub = NaN) \<and>
   Target (subtotal_row emp_targets clust sub)
     = Some (fround (fround (cluster_target emp_targets clust sub) 2) 2)"
proof (intro conjI allI impI)
  fix t assume "emp_targets (Str clust) = Some t"
  then show "cluster_target emp_targets clust sub = Fin t"
    by (simp add: cluster_target_def)
next
  assume a: "emp_targets (Str clust) = None \<and> (\<exists>r \<in> set sub. emp_targets (employee_responsible r) \<noteq> None)"
  then have "\<exists>v \<in> set (map (\<lambda>r. emp_targets (employee_responsible r)) sub). v \<noteq> None"
    by auto
  from sum_min_count1_some [OF this] a
  show "cluster_target emp_targets clust sub
        = Fin (sum_list (map (\<lambda>r. dict_get emp_targets (employee_responsible r) 0) sub))"
    by (simp add: cluster_target_def dict_get_def comp_def)
next
  assume a: "emp_targets (Str clust) = None \<and> (\<forall>r \<in> set sub. emp_targets (employee_responsible r) = None)"
  then have "\<forall>v \<in> set (map (\<lambda>r. emp_targets (employee_responsible r)) sub). v = None"
    by auto
  from sum_min_count1_none [OF this] a
  show "cluster_target emp_targets clust sub = NaN"
    by (simp add: cluster_target_def)
next
  show "Target (subtotal_row emp_targets clust sub)
     = Some (fround (fround (cluster_target emp_targets clust sub) 2) 2)"
    by (cases "cluster_target emp_targets clust sub")
       (simp_all add: subtotal_row_def Let_def EMP_SCALE_def EMP_DEC_def)
qed

theorem cluster_target_two_tier_witness:
  "cluster_target [Str ''OD'' \<mapsto> 500, Str ''Arun'' \<mapsto> 200] ''OD''
     [\<lparr>cluster = ''OD'', employee_responsible = Str ''Arun'', minr_ob = 40, minr_sales = 100\<rparr>]
   = Fin 500 \<and>
   cluster_target [Str ''Arun'' \<mapsto> 200] ''OD''
     [\<lparr>cluster = ''OD'', employee_responsible = Str ''Arun'', minr_ob = 40, minr_sales = 100\<rparr>,
      \<lparr>cluster = ''OD'', employee_responsible = Str ''Zed'', minr_ob = 1, minr_sales = 2\<rparr>]
   = Fin 200 \<and>
   cluster_target [Str ''Pritesh'' \<mapsto> 50] ''OD''
     [\<lparr>cluster = ''OD'', employee_responsible = Str ''Arun'', minr_ob = 40, minr_sales = 100\<rparr>]
   = NaN"
proof -
  let ?arun = "\<lparr>cluster = ''OD'', employee_responsible = Str ''Arun'', minr_ob = 40, minr_sales = 100\<rparr>"
  let ?zed = "\<lparr>cluster = ''OD'', employee_responsible = Str ''Zed'', minr_ob = 1, minr_sales = 2\<rparr>"
  have h1: "[Str ''OD'' \<mapsto> 500, Str ''Arun'' \<mapsto> (200::rat)] (Str ''OD'') = Some 500"
    by simp
  have h2: "[Str ''Arun'' \<mapsto> (200::rat)] (Str ''OD'') = None \<and>
            (\<exists>r \<in> set [?arun, ?zed]. [Str ''Arun'' \<mapsto> (200::rat)] (employee_responsible r) \<noteq> None)"
    by simp
  have h3: "[Str ''Pritesh'' \<mapsto> (50::rat)] (Str ''OD'') = None \<and>
            (\<forall>r \<in> set [?arun]. [Str ''Pritesh'' \<mapsto> (50::rat)] (employee_responsible r) = None)"
    by simp
  have e2: "sum_list (map (\<lambda>r. dict_get [Str ''Arun'' \<mapsto> (200::rat)] (employee_responsible r) 0)
              [?arun, ?zed]) = 200"
    by (simp add: dict_get_def)
  from cluster_target_two_tier [of "[Str ''OD'' \<mapsto> 500, Str ''Arun'' \<mapsto> 200]" "''OD''" "[?arun]"] h1
  have c1: "cluster_target [Str ''OD'' \<mapsto> 500, Str ''Arun'' \<mapsto> 200] ''OD'' [?arun] = Fin 500"
    by blast
  from cluster_target_two_tier [of "[Str ''Arun'' \<mapsto> 200]" "''OD''" "[?arun, ?zed]"] h2 e2
  have c2: "cluster_target [Str ''Arun'' \<mapsto> 200] ''OD'' [?arun, ?zed] = Fin 200"
    by presburger
  from cluster_target_two_tier [of "[Str ''Pritesh'' \<mapsto> 50]" "''OD''" "[?arun]"] h3
  have c3: "cluster_target [Str ''Pritesh'' \<mapsto> 50] ''OD'' [?arun] = NaN"
    by blast
  from c1 c2 c3 show ?thesis by blast
qed

text \<open>
  With a target table that names no member of the cluster, the OD subtotal row has target
  NaN, not 0.
\<close>

theorem unassigned_cluster_target_counterexample:
  "upload
     \<lparr>columns = [''Employee Responsible'', ''Helios Code'', ''MINR-2025''],
      records = [\<lparr>employee = Str ''Arun'', helios = Str ''PP1'', minr = 100\<rparr>]\<rparr>
     \<lparr>columns = [''Employee Responsible'', ''Helios Code'', ''MINR-2025''],
      records = [\<lparr>employee = Str ''Arun'', helios = Str ''PP1'', minr = 40\<rparr>]\<rparr>
     [Str ''Pritesh'' \<mapsto> 50] []
   = Inr \<lparr>pivot2 =
        [\<lparr>Cluster = ''OD'', Employee_Responsible = Str ''OD Total'',
            OB_Total = 40, OB_Remaining = Some NaN, OB_Achiev = Some NaN,
            Sales_Total = 100, Sales_Remaining = Some NaN, Sales_Achiev = Some NaN,
            Target = Some NaN\<rparr>,
         \<lparr>Cluster = ''OD'', Employee_Responsible = Str ''Arun'',
            OB_Total = 40, OB_Remaining = Some (Fin 0), OB_Achiev = Some (Fin 0),
            Sales_Total = 100, Sales_Remaining = Some (Fin 0), Sales_Achiev = Some (Fin 0),
            Target = Some (Fin 0)\<rparr>],
        cluster_rows =
        [\<lparr>Cluster = ''OD'', Employee_Responsible = Str ''OD Total'',
            OB_Total = 40, OB_Remaining = Some NaN, OB_Achiev = Some NaN,
            Sales_Total = 100, Sales_Remaining = Some NaN, Sales_Achiev = Some NaN,
            Target = Some NaN\<rparr>],
        bu_rows = []\<rparr> \<and>
   Some NaN \<noteq> Some (Fin 0)"
  by code_simp

text \<open>
  C4 (as amended). On a cluster subtotal row, remaining is null exactly when the resolved
  cluster target is null. Achievement is computed, as total / target * 100 rounded to two
  decimals, exactly when the reported target is a number other than zero, a negative target
  included; it is null when the target is zero or null. On an employee row, when the
  employee's target is 0 or absent, remaining and achievement are 0, not null.
\<close>

theorem null_policy:
  "row = subtotal_row emp_targets clust sub \<Longrightarrow>
   (is_null (OB_Remaining row) \<longleftrightarrow> is_null (Target row)) \<and>
   (is_null (Sales_Remaining row) \<longleftrightarrow> is_null (Target row)) \<and>
   (is_null (Target row) \<longleftrightarrow> cluster_target emp_targets clust sub = NaN) \<and>
   (\<not> is_null (OB_Achiev row) \<longleftrightarrow> (\<exists>t. Target row = Some (Fin t) \<and> t \<noteq> 0)) \<and>
   (\<not> is_null (Sales_Achiev row) \<longleftrightarrow> (\<exists>t. Target row = Some (Fin t) \<and> t \<noteq> 0)) \<and>
   (\<forall>t. Target row = Some (Fin t) \<and> t \<noteq> 0 \<longrightarrow>
        OB_Achiev row = Some (Fin (py_round (OB_Total row / t * 100) 2)) \<and>
        Sales_Achiev row = Some (Fin (py_round (Sales_Total row / t * 100) 2))) \<and>
   (dict_get emp_targets (employee_responsible r) 0 = 0 \<longrightarrow>
        OB_Remaining (emp_row emp_targets clust r) = Some (Fin 0) \<and>
        OB_Achiev (emp_row emp_targets clust r) = Some (Fin 0) \<and>
        Sales_Remaining (emp_row emp_targets clust r) = Some (Fin 0) \<and>
        Sales_Achiev (emp_row emp_targets clust r) = Some (Fin 0))"
proof -
  assume row: "row = subtotal_row emp_targets clust sub"
  have emp: "dict_get emp_targets (employee_responsible r) 0 = 0 \<longrightarrow>
        OB_Remaining (emp_row emp_targets clust r) = Some (Fin 0) \<and>
        OB_Achiev (emp_row emp_targets clust r) = Some (Fin 0) \<and>
        Sales_Remaining (emp_row emp_targets clust r) = Some (Fin 0) \<and>
        Sales_Achiev (emp_row emp_targets clust r) = Some (Fin 0)"
    by (simp add: emp_row_def Let_def)
  show ?thesis
  proof (cases "cluster_target emp_targets clust sub")
    case NaN
    then have "Target row = Some NaN" "OB_Remaining row = Some NaN" "Sales_Remaining row = Some NaN"
      "OB_Achiev row = Some NaN" "Sales_Achiev row = Some NaN"
      by (simp_all add: row subtotal_row_def Let_def achv_pct_def)
    with NaN emp show ?thesis by simp
  next
    case (Fin x)
    define t where "t = py_round (py_round x 2 / 1) 2"
    have tg: "Target row = Some (Fin t)"
      using Fin by (simp add: row subtotal_row_def Let_def t_def EMP_SCALE_def EMP_DEC_def)
    have rem: "\<not> is_null (OB_Remaining row)" "\<not> is_null (Sales_Remaining row)"
      using Fin by (simp_all add: row subtotal_row_def Let_def EMP_SCALE_def EMP_DEC_def)
    have ach: "OB_Achiev row = (if t \<noteq> 0 then Some (Fin (py_round (OB_Total row / t * 100) 2)) else None)"
      "Sales_Achiev row = (if t \<noteq> 0 then Some (Fin (py_round (Sales_Total row / t * 100) 2)) else None)"
      using Fin by (simp_all add: row subtotal_row_def Let_def achv_pct_def t_def EMP_SCALE_def EMP_DEC_def)
    from tg rem ach Fin emp show ?thesis by simp
  qed
qed

theorem null_policy_witness:
  "OB_Achiev (subtotal_row [Str ''Arun'' \<mapsto> - 200] ''OD''
      [\<lparr>cluster = ''OD'', employee_responsible = Str ''Arun'', minr_ob = 40, minr_sales = 100\<rparr>])
   = Some (Fin (- 20)) \<and>
   Sales_Achiev (subtotal_row [Str ''Arun'' \<mapsto> - 200] ''OD''
      [\<lparr>cluster = ''OD'', employee_responsible = Str ''Arun'', minr_ob = 40, minr_sales = 100\<rparr>])
   = Some (Fin (- 50)) \<and>
   OB_Remaining (emp_row [Str ''Arun'' \<mapsto> - 200] ''OD''
      \<lparr>cluster = ''OD'', employee_responsible = Str ''Zed'', minr_ob = 7, minr_sales = 9\<rparr>)
   = Some (Fin 0) \<and>
   OB_Achiev (emp_row [Str ''Arun'' \<mapsto> - 200] ''OD''
      \<lparr>cluster = ''OD'', employee_responsible = Str ''Zed'', minr_ob = 7, minr_sales = 9\<rparr>)
   = Some (Fin 0)"
proof -
  let ?et = "[Str ''Arun'' \<mapsto> (- 200 :: rat)]"
  let ?sub = "[\<lparr>cluster = ''OD'', employee_responsible = Str ''Arun'', minr_ob = 40, minr_sales = 100\<rparr>]"
  let ?zed = "\<lparr>cluster = ''OD'', employee_responsible = Str ''Zed'', minr_ob = 7, minr_sales = 9\<rparr>"
  have h1: "Target (subtotal_row ?et ''OD'' ?sub) = Some (Fin (- 200)) \<and> (- 200 :: rat) \<noteq> 0"
    by code_simp
  have h2: "dict_get ?et (employee_responsible ?zed) 0 = 0"
    by (simp add: dict_get_def)
  have v1: "py_round (OB_Total (subtotal_row ?et ''OD'' ?sub) / (- 200) * 100) 2 = - 20"
    by code_simp
  have v2: "py_round (Sales_Total (subtotal_row ?et ''OD'' ?sub) / (- 200) * 100) 2 = - 50"
    by code_simp
  have "OB_Achiev (subtotal_row ?et ''OD'' ?sub)
          = Some (Fin (py_round (OB_Total (subtotal_row ?et ''OD'' ?sub) / (- 200) * 100) 2)) \<and>
        Sales_Achiev (subtotal_row ?et ''OD'' ?sub)
          = Some (Fin (py_round (Sales_Total (subtotal_row ?et ''OD'' ?sub) / (- 200) * 100) 2))"
    using null_policy [OF refl, of ?et "''OD''" ?sub ?zed] h1 by blast
  moreover have "OB_Remaining (emp_row ?et ''OD'' ?zed) = Some (Fin 0) \<and>
        OB_Achiev (emp_row ?et ''OD'' ?zed) = Some (Fin 0)"
    using null_policy [OF refl, of ?et "''OD''" ?sub ?zed] h2 by blast
  ultimately show ?thesis by (simp only: v1 v2)
qed

text \<open>
  With a negative target the subtotal row carries a computed, negative achievement; the
  employee row carries 0.
\<close>

theorem negative_target_achievement_counterexample:
  "upload
     \<lparr>columns = [''Employee Responsible'', ''Helios Code'', ''MINR-2025''],
      records = [\<lparr>employee = Str ''Arun'', helios = Str ''PP1'', minr = 100\<rparr>]\<rparr>
     \<lparr>columns = [''Employee Responsible'', ''Helios Code'', ''MINR-2025''],
      records = [\<lparr>employee = Str ''Arun'', helios = Str ''PP1'', minr = 40\<rparr>]\<rparr>
     [Str ''Arun'' \<mapsto> - 200] []
   = Inr \<lparr>pivot2 =
        [\<lparr>Cluster = ''OD'', Employee_Responsible = Str ''OD Total'',
            OB_Total = 40, OB_Remaining = Some (Fin (- 240)), OB_Achiev = Some (Fin (- 20)),
            Sales_Total = 100, Sales_Remaining = Some (Fin (- 300)),
            Sales_Achiev = Some (Fin (- 50)), Target = Some (Fin (- 200))\<rparr>,
         \<lparr>Cluster = ''OD'', Employee_Responsible = Str ''Arun'',
            OB_Total = 40, OB_Remaining = Some (Fin 0), OB_Achiev = Some (Fin 0),
            Sales_Total = 100, Sales_Remaining = Some (Fin 0), Sales_Achiev = Some (Fin 0),
            Target = Some (Fin 0)\<rparr>],
        cluster_rows =
        [\<lparr>Cluster = ''OD'', Employee_Responsible = Str ''OD Total'',
            OB_Total = 40, OB_Remaining = Some (Fin (- 240)), OB_Achiev = Some (Fin (- 20)),
            Sales_Total = 100, Sales_Remaining = Some (Fin (- 300)),
            Sales_Achiev = Some (Fin (- 50)), Target = Some (Fin (- 200))\<rparr>],
        bu_rows = []\<rparr> \<and>
   \<not> is_null (Some (Fin (- 20)))"
  by code_simp

section \<open>Properties of grouping and reconciliation\<close>

lemma filter_fst_distinct:
  "distinct (map fst L) \<Longrightarrow>
   map snd (filter (\<lambda>p. fst p = k) L) = (case map_of L k of None \<Rightarrow> [] | Some v \<Rightarrow> [v])"
proof (induction L)
  case Nil
  then show ?case by simp
next
  case (Cons p L)
  obtain a b where p: "p = (a, b)" by (cases p)
  show ?case
  proof (cases "a = k")
    case True
    with Cons.prems p have "k \<notin> fst ` set L" by auto
    then have e: "filter (\<lambda>p. fst p = k) L = []"
      by (auto simp: filter_empty_conv)
    show ?thesis by (simp add: p True e)
  next
    case False
    have "distinct (map fst L)" using Cons.prems by simp
    then have "map snd (filter (\<lambda>p. fst p = k) L) = (case map_of L k of None \<Rightarrow> [] | Some v \<Rightarrow> [v])"
      by (rule Cons.IH)
    then show ?thesis using False by (simp add: p)
  qed
qed

lemma concat_map_singleton:
  "(\<And>x. x \<in> set xs \<Longrightarrow> f x = [g x]) \<Longrightarrow> concat (map f xs) = map g xs"
  by (induction xs) simp_all

lemma merge_outer_row:
  assumes "ls = (case l of None \<Rightarrow> [] | Some v \<Rightarrow> [v])"
    and "rs = (case r of None \<Rightarrow> [] | Some v \<Rightarrow> [v])"
    and "l \<noteq> None \<or> r \<noteq> None"
  shows "(if rs = [] then map (\<lambda>a. (k, Some a, None)) ls
          else if ls = [] then map (\<lambda>b. (k, None, Some b)) rs
          else concat (map (\<lambda>a. map (\<lambda>b. (k, Some a, Some b)) rs) ls))
         = [(k, l, r)]"
proof (cases l)
  case None
  with assms(3) obtain b where "r = Some b" by auto
  with None assms(1,2) show ?thesis by simp
next
  case (Some a)
  show ?thesis
  proof (cases r)
    case None
    with Some assms(1,2) show ?thesis by simp
  next
    case (Some b)
    with \<open>l = Some a\<close> assms(1,2) show ?thesis by simp
  qed
qed

lemma merge_outer_distinct:
  assumes "distinct (map fst L)" and "distinct (map fst R)"
  shows "merge_outer rank L R
         = map (\<lambda>k. (k, map_of L k, map_of R k)) (sort_key rank (remdups (map fst L @ map fst R)))"
  unfolding merge_outer_def
proof (rule concat_map_singleton)
  fix k assume "k \<in> set (sort_key rank (remdups (map fst L @ map fst R)))"
  then have k: "k \<in> fst ` set L \<or> k \<in> fst ` set R" by auto
  have l: "map snd (filter (\<lambda>p. fst p = k) L) = (case map_of L k of None \<Rightarrow> [] | Some v \<Rightarrow> [v])"
    using assms(1) by (rule filter_fst_distinct)
  have r: "map snd (filter (\<lambda>p. fst p = k) R) = (case map_of R k of None \<Rightarrow> [] | Some v \<Rightarrow> [v])"
    using assms(2) by (rule filter_fst_distinct)
  from k have n: "map_of L k \<noteq> None \<or> map_of R k \<noteq> None"
    by (simp add: map_of_eq_None_iff)
  show "(let ls = map snd (filter (\<lambda>p. fst p = k) L);
            rs = map snd (filter (\<lambda>p. fst p = k) R)
        in if rs = [] then map (\<lambda>a. (k, Some a, None)) ls
           else if ls = [] then map (\<lambda>b. (k, None, Some b)) rs
           else concat (map (\<lambda>a. map (\<lambda>b. (k, Some a, Some b)) rs) ls))
        = [(k, map_of L k, map_of R k)]"
    unfolding Let_def by (rule merge_outer_row [OF l r n])
qed

lemma merged_distinct:
  assumes "distinct (map fst L)" and "distinct (map fst R)"
  shows "merged L R
         = map (\<lambda>k. \<lparr>cluster = fst k, employee_responsible = snd k,
                      minr_ob = fillna0 (map_of L k), minr_sales = fillna0 (map_of R k)\<rparr>)
               (sort_key key_rank (remdups (map fst L @ map fst R)))"
  by (simp add: merged_def merge_outer_distinct [OF assms])

lemma groupby_sum_keys:
  "map fst (groupby_sum df)
   = sort_key key_rank (remdups (map (\<lambda>r. (fst r, employee (snd r)))
                                      (filter (\<lambda>r. employee (snd r) \<noteq> Blank) df)))"
  by (simp add: groupby_sum_def Let_def comp_def)

lemma groupby_sum_distinct: "distinct (map fst (groupby_sum df))"
  by (simp add: groupby_sum_keys)











lemma sorted_unique: "sorted xs \<Longrightarrow> sorted (unique xs)"
proof (induction xs rule: unique.induct)
  case 1
  then show ?case by simp
next
  case (2 x xs)
  from "2.prems" have le: "\<forall>y \<in> set xs. x \<le> y" and s: "sorted xs" by simp_all
  have "sorted (removeAll x xs)"
    using s sorted_filter [of "\<lambda>y. y" xs "\<lambda>y. x \<noteq> y"]
    by (simp add: removeAll_filter_not_eq)
  then have "sorted (unique (removeAll x xs))" by (rule "2.IH")
  moreover have "\<forall>y \<in> set (unique (removeAll x xs)). x \<le> y"
    using le by (simp add: set_unique)
  ultimately show ?case by simp
qed

lemma key_rank_fst_mono: "key_rank a \<le> key_rank b \<Longrightarrow> fst a \<le> fst b"
  by (auto simp: key_rank_def less_eq_prod_def)

lemma sorted_fst_sort_key_rank: "sorted (map fst (sort_key key_rank ks))"
proof -
  have "sorted (map key_rank (sort_key key_rank ks))" by (rule sorted_sort_key)
  then have "sorted_wrt (\<lambda>a b. key_rank a \<le> key_rank b) (sort_key key_rank ks)"
    by (simp add: sorted_map)
  then have "sorted_wrt (\<lambda>a b. fst a \<le> fst b) (sort_key key_rank ks)"
    by (rule sorted_wrt_mono_rel [rotated]) (simp add: key_rank_fst_mono)
  then show ?thesis by (simp add: sorted_map)
qed

lemma cluster_merged_groupby:
  "map cluster (merged (groupby_sum ob) (groupby_sum sales))
   = map fst (sort_key key_rank (remdups (map fst (groupby_sum ob) @ map fst (groupby_sum sales))))"
  by (simp add: merged_distinct [OF groupby_sum_distinct groupby_sum_distinct] comp_def)

lemma set_fst_groupby_sum:
  "fst ` fst ` set (groupby_sum (assign_cluster df))
   = (\<lambda>t. get_cluster (employee t)) ` {t \<in> set df. employee t \<noteq> Blank}"
proof -
  have "set (map fst (groupby_sum (assign_cluster df)))
        = (\<lambda>r. (fst r, employee (snd r))) ` {r \<in> set (assign_cluster df). employee (snd r) \<noteq> Blank}"
    by (simp only: groupby_sum_keys set_sort set_remdups set_map set_filter)
  then have "fst ` set (map fst (groupby_sum (assign_cluster df)))
        = fst ` {r \<in> set (assign_cluster df). employee (snd r) \<noteq> Blank}"
    by (simp add: image_image)
  also have "\<dots> = (\<lambda>t. get_cluster (employee t)) ` {t \<in> set df. employee t \<noteq> Blank}"
    by (auto simp: assign_cluster_def image_iff)
  finally show ?thesis by simp
qed

lemma Cluster_subtotal_row: "Cluster (subtotal_row emp_targets clust sub) = clust"
  by (simp add: subtotal_row_def Let_def)

lemma Cluster_cluster_rows_of:
  "map Cluster (cluster_rows_of emp_targets m) = unique (map cluster m)"
  by (simp add: cluster_rows_of_def groupby_cluster_def comp_def Cluster_subtotal_row)

text \<open>
  C6 (as amended). The cluster subtotal rows come in the order in which the clusters first
  appear in the merged frame; as grouping and merging order the frame by key, this is the
  ascending (code-point) order of the cluster labels of the rows that name an employee,
  whatever the order of the rows in the input sheets.
\<close>

theorem cluster_order_sorted:
  "upload df_sales df_ob emp_targets bu_targets = Inr rep \<Longrightarrow>
   map Cluster (cluster_rows rep)
     = unique (map cluster (merged (groupby_sum (assign_cluster (records df_ob)))
                                   (groupby_sum (assign_cluster (records df_sales))))) \<and>
   map Cluster (cluster_rows rep)
     = sort (remdups (map (\<lambda>t. get_cluster (employee t))
                          (filter (\<lambda>t. employee t \<noteq> Blank) (records df_ob @ records df_sales))))"
proof -
  assume "upload df_sales df_ob emp_targets bu_targets = Inr rep"
  then have c: "cluster_rows rep = cluster_rows_of emp_targets
             (merged (groupby_sum (assign_cluster (records df_ob)))
                     (groupby_sum (assign_cluster (records df_sales))))"
    by (drule_tac upload_Inr_report) simp
  let ?ob = "groupby_sum (assign_cluster (records df_ob))"
  let ?sales = "groupby_sum (assign_cluster (records df_sales))"
  let ?ks = "sort_key key_rank (remdups (map fst ?ob @ map fst ?sales))"
  have first: "map Cluster (cluster_rows rep) = unique (map cluster (merged ?ob ?sales))"
    by (simp only: c Cluster_cluster_rows_of)
  have u: "map Cluster (cluster_rows rep) = unique (map fst ?ks)"
    by (simp only: first cluster_merged_groupby)
  have s: "sorted (map Cluster (cluster_rows rep))"
    unfolding u by (rule sorted_unique) (rule sorted_fst_sort_key_rank)
  have d: "distinct (map Cluster (cluster_rows rep))"
    unfolding u by (rule distinct_unique)
  have "set (map Cluster (cluster_rows rep)) = set (map fst ?ks)"
    by (simp only: u set_unique)
  also have "\<dots> = fst ` fst ` set ?ob \<union> fst ` fst ` set ?sales"
    by (simp add: image_Un)
  also have "\<dots> = (\<lambda>t. get_cluster (employee t)) ` {t \<in> set (records df_ob). employee t \<noteq> Blank}
                  \<union> (\<lambda>t. get_cluster (employee t)) ` {t \<in> set (records df_sales). employee t \<noteq> Blank}"
    by (simp only: set_fst_groupby_sum)
  also have "\<dots> = set (map (\<lambda>t. get_cluster (employee t))
                   (filter (\<lambda>t. employee t \<noteq> Blank) (records df_ob @ records df_sales)))"
    by auto
  finally have e: "set (map Cluster (cluster_rows rep))
        = set (map (\<lambda>t. get_cluster (employee t))
                   (filter (\<lambda>t. employee t \<noteq> Blank) (records df_ob @ records df_sales)))" .
  have "map Cluster (cluster_rows rep)
     = sort (remdups (map (\<lambda>t. get_cluster (employee t))
                          (filter (\<lambda>t. employee t \<noteq> Blank) (records df_ob @ records df_sales))))"
  proof (rule sorted_distinct_set_unique [OF s d])
    show "set (map Cluster (cluster_rows rep))
        = set (sort (remdups (map (\<lambda>t. get_cluster (employee t))
                          (filter (\<lambda>t. employee t \<noteq> Blank) (records df_ob @ records df_sales)))))"
      by (simp only: e set_sort set_remdups)
  qed simp_all
  with first show ?thesis by simp
qed

theorem cluster_order_sorted_witness:
  "sort (remdups (map (\<lambda>t. get_cluster (employee t))
      (filter (\<lambda>t. employee t \<noteq> Blank)
         ([\<lparr>employee = Str ''Sunny'', helios = Str ''PP1'', minr = 5\<rparr>,
           \<lparr>employee = Str ''Rahul'', helios = Str ''HD1'', minr = 7\<rparr>] @
          [\<lparr>employee = Str ''Sunny'', helios = Str ''PP1'', minr = 20\<rparr>,
           \<lparr>employee = Str ''Rahul'', helios = Str ''HD1'', minr = 30\<rparr>]))))
   = [''B+R'', ''JSR'']"
proof -
  let ?S = "\<lparr>columns = [''Employee Responsible'', ''Helios Code'', ''MINR-2025''],
      records = [\<lparr>employee = Str ''Sunny'', helios = Str ''PP1'', minr = 20\<rparr>,
                 \<lparr>employee = Str ''Rahul'', helios = Str ''HD1'', minr = 30\<rparr>]\<rparr>"
  let ?O = "\<lparr>columns = [''Employee Responsible'', ''Helios Code'', ''MINR-2025''],
      records = [\<lparr>employee = Str ''Sunny'', helios = Str ''PP1'', minr = 5\<rparr>,
                 \<lparr>employee = Str ''Rahul'', helios = Str ''HD1'', minr = 7\<rparr>]\<rparr>"
  let ?rep = "\<lparr>pivot2 =
        [\<lparr>Cluster = ''B+R'', Employee_Responsible = Str ''B+R Total'',
            OB_Total = 7, OB_Remaining = Some NaN, OB_Achiev = Some NaN,
            Sales_Total = 30, Sales_Remaining = Some NaN, Sales_Achiev = Some NaN,
            Target = Some NaN\<rparr>,
         \<lparr>Cluster = ''B+R'', Employee_Responsible = Str ''Rahul'',
            OB_Total = 7, OB_Remaining = Some (Fin 0), OB_Achiev = Some (Fin 0),
            Sales_Total = 30, Sales_Remaining = Some (Fin 0), Sales_Achiev = Some (Fin 0),
            Target = Some (Fin 0)\<rparr>,
         \<lparr>Cluster = ''JSR'', Employee_Responsible = Str ''JSR Total'',
            OB_Total = 5, OB_Remaining = Some NaN, OB_Achiev = Some NaN,
            Sales_Total = 20, Sales_Remaining = Some NaN, Sales_Achiev = Some NaN,
            Target = Some NaN\<rparr>,
         \<lparr>Cluster = ''JSR'', Employee_Responsible = Str ''Sunny'',
            OB_Total = 5, OB_Remaining = Some (Fin 0), OB_Achiev = Some (Fin 0),
            Sales_Total = 20, Sales_Remaining = Some (Fin 0), Sales_Achiev = Some (Fin 0),
            Target = Some (Fin 0)\<rparr>],
        cluster_rows =
        [\<lparr>Cluster = ''B+R'', Employee_Responsible = Str ''B+R Total'',
            OB_Total = 7, OB_Remaining = Some NaN, OB_Achiev = Some NaN,
            Sales_Total = 30, Sales_Remaining = Some NaN, Sales_Achiev = Some NaN,
            Target = Some NaN\<rparr>,
         \<lparr>Cluster = ''JSR'', Employee_Responsible = Str ''JSR Total'',
            OB_Total = 5, OB_Remaining = Some NaN, OB_Achiev = Some NaN,
            Sales_Total = 20, Sales_Remaining = Some NaN, Sales_Achiev = Some NaN,
            Target = Some NaN\<rparr>],
        bu_rows = []\<rparr>"
  have h: "upload ?S ?O Map.empty [] = Inr ?rep"
    by code_simp
  have l: "map Cluster (cluster_rows ?rep) = [''B+R'', ''JSR'']"
    by simp
  have r: "records ?O @ records ?S =
         [\<lparr>employee = Str ''Sunny'', helios = Str ''PP1'', minr = 5\<rparr>,
           \<lparr>employee = Str ''Rahul'', helios = Str ''HD1'', minr = 7\<rparr>] @
          [\<lparr>employee = Str ''Sunny'', helios = Str ''PP1'', minr = 20\<rparr>,
           \<lparr>employee = Str ''Rahul'', helios = Str ''HD1'', minr = 30\<rparr>]"
    by simp
  from cluster_order_sorted [OF h]
  have "map Cluster (cluster_rows ?rep)
     = sort (remdups (map (\<lambda>t. get_cluster (employee t))
                          (filter (\<lambda>t. employee t \<noteq> Blank) (records ?O @ records ?S))))"
    by (rule conjunct2)
  then show ?thesis
    unfolding l r by (rule sym)
qed

text \<open>
  Both sheets list Arun (OD) before Pritesh (CG); the output lists CG before OD.
\<close>

theorem cluster_order_not_first_appearance_counterexample:
  "upload
     \<lparr>columns = [''Employee Responsible'', ''Helios Code'', ''MINR-2025''],
      records = [\<lparr>employee = Str ''Arun'', helios = Str ''PP1'', minr = 100\<rparr>,
                 \<lparr>employee = Str ''Pritesh'', helios = Str ''HD1'', minr = 30\<rparr>]\<rparr>
     \<lparr>columns = [''Employee Responsible'', ''Helios Code'', ''MINR-2025''],
      records = [\<lparr>employee = Str ''Arun'', helios = Str ''PP1'', minr = 40\<rparr>,
                 \<lparr>employee = Str ''Pritesh'', helios = Str ''HD1'', minr = 10\<rparr>]\<rparr>
     Map.empty []
   = Inr \<lparr>pivot2 =
        [\<lparr>Cluster = ''CG'', Employee_Responsible = Str ''CG Total'',
            OB_Total = 10, OB_Remaining = Some NaN, OB_Achiev = Some NaN,
            Sales_Total = 30, Sales_Remaining = Some NaN, Sales_Achiev = Some NaN,
            Target = Some NaN\<rparr>,
         \<lparr>Cluster = ''CG'', Employee_Responsible = Str ''Pritesh'',
            OB_Total = 10, OB_Remaining = Some (Fin 0), OB_Achiev = Some (Fin 0),
            Sales_Total = 30, Sales_Remaining = Some (Fin 0), Sales_Achiev = Some (Fin 0),
            Target = Some (Fin 0)\<rparr>,
         \<lparr>Cluster = ''OD'', Employee_Responsible = Str ''OD Total'',
            OB_Total = 40, OB_Remaining = Some NaN, OB_Achiev = Some NaN,
            Sales_Total = 100, Sales_Remaining = Some NaN, Sales_Achiev = Some NaN,
            Target = Some NaN\<rparr>,
         \<lparr>Cluster = ''OD'', Employee_Responsible = Str ''Arun'',
            OB_Total = 40, OB_Remaining = Some (Fin 0), OB_Achiev = Some (Fin 0),
            Sales_Total = 100, Sales_Remaining = Some (Fin 0), Sales_Achiev = Some (Fin 0),
            Target = Some (Fin 0)\<rparr>],
        cluster_rows =
        [\<lparr>Cluster = ''CG'', Employee_Responsible = Str ''CG Total'',
            OB_Total = 10, OB_Remaining = Some NaN, OB_Achiev = Some NaN,
            Sales_Total = 30, Sales_Remaining = Some NaN, Sales_Achiev = Some NaN,
            Target = Some NaN\<rparr>,
         \<lparr>Cluster = ''OD'', Employee_Responsible = Str ''OD Total'',
            OB_Total = 40, OB_Remaining = Some NaN, OB_Achiev = Some NaN,
            Sales_Total = 100, Sales_Remaining = Some NaN, Sales_Achiev = Some NaN,
            Target = Some NaN\<rparr>],
        bu_rows = []\<rparr> \<and>
   unique (map get_cluster [Str ''Arun'', Str ''Pritesh'', Str ''Arun'', Str ''Pritesh''])
     = [''OD'', ''CG''] \<and>
   [''CG'', ''OD''] \<noteq> [''OD'', ''CG'']"
  by code_simp

end
